theory Spec2Isabelle
  imports Main
begin

section \<open>Python values and exceptions\<close>

text \<open>
  The two modules are dynamically typed: a JWT payload, the identity handed to a route
  and the request data given to the entity operations are Python dictionaries from
  strings to arbitrary values. A value is one of the kinds of value that these
  dictionaries hold. A \<open>datetime\<close> is its number of microseconds since the epoch.
\<close>

datatype pyval = NoneV | IntV int | StrV string | DatetimeV int

type_synonym pydict = "string \<rightharpoonup> pyval"

text \<open>
  Every exception that the two modules raise, catch or let through. \<open>InvalidTokenError\<close>
  stands for the base class and all its subclasses other than \<open>ExpiredSignatureError\<close>;
  \<open>SQLAlchemyError\<close> for the base class and all its subclasses other than
  \<open>NoResultFound\<close> and \<open>MultipleResultsFound\<close>.
\<close>

datatype exn =
    KeyError string
  | ValueError string
  | ExpiredSignatureError
  | InvalidTokenError
  | NoResultFound
  | MultipleResultsFound
  | SQLAlchemyError
  | TypeError

text \<open>Evaluation in sequence: the first exception ends it.\<close>

definition and_then :: "exn + 'a \<Rightarrow> ('a \<Rightarrow> exn + 'b) \<Rightarrow> exn + 'b" where
  "and_then x g = (case x of Inl e \<Rightarrow> Inl e | Inr v \<Rightarrow> g v)"

text \<open>The truth value of a value in a condition.\<close>

fun truthy :: "pyval \<Rightarrow> bool" where
  "truthy NoneV = False"
| "truthy (IntV n) = (n \<noteq> 0)"
| "truthy (StrV s) = (s \<noteq> [])"
| "truthy (DatetimeV t) = True"

section \<open>jwtfunc.py\<close>

subsection \<open>String operations of the header check\<close>

text \<open>
  A header value reaches the application as text whose characters are the bytes of the
  header (Latin-1), so an Isabelle \<open>char\<close> is one Python character here.
  \<open>isspace\<close> is \<open>str.isspace\<close> on that range: the characters \<open>str.split()\<close> splits at.
\<close>

definition isspace :: "char \<Rightarrow> bool" where
  "isspace c \<longleftrightarrow> (of_char c :: nat) \<in> {9, 10, 11, 12, 13, 28, 29, 30, 31, 32, 133, 160}"

text \<open>
  \<open>str.split()\<close> without arguments: the maximal runs of characters that are not
  whitespace, in order; leading and trailing whitespace gives no empty part.
  \<open>split_acc cur s\<close> scans \<open>s\<close> with the reversed part read so far in \<open>cur\<close>.
\<close>

fun split_acc :: "string \<Rightarrow> string \<Rightarrow> string list" where
  "split_acc cur [] = (if cur = [] then [] else [rev cur])"
| "split_acc cur (c # cs) =
     (if isspace c then (if cur = [] then split_acc [] cs else rev cur # split_acc [] cs)
      else split_acc (c # cur) cs)"

definition str_split :: "string \<Rightarrow> string list" where
  "str_split s = split_acc [] s"

text \<open>
  \<open>str.lower()\<close> on the same range: the letters A to Z and the accented capitals
  0xC0 to 0xDE (without the multiplication sign 0xD7) move up by 32.
\<close>

definition lower_char :: "char \<Rightarrow> char" where
  "lower_char c =
     (let n = (of_char c :: nat)
      in if (65 \<le> n \<and> n \<le> 90) \<or> (192 \<le> n \<and> n \<le> 222 \<and> n \<noteq> 215) then char_of (n + 32) else c)"

definition str_lower :: "string \<Rightarrow> string" where
  "str_lower s = map lower_char s"

subsection \<open>generate_token\<close>

text \<open>
  The PyJWT calls are parameters: \<open>jwt_encode payload key\<close> is
  \<open>jwt.encode(payload, key, algorithm='HS256')\<close>. The clock \<open>utcnow\<close> is the value
  that \<open>datetime.datetime.utcnow()\<close> returns, \<open>isoformat\<close> is \<open>datetime.isoformat\<close>, and
  \<open>SECRET_KEY\<close> is \<open>app.config['SECRET_KEY']\<close>. One hour is 3600000000 microseconds.
\<close>

definition generate_token ::
  "(pydict \<Rightarrow> string \<Rightarrow> string) \<Rightarrow> (int \<Rightarrow> string) \<Rightarrow> string \<Rightarrow> int \<Rightarrow>
   pyval \<Rightarrow> pyval \<Rightarrow> pyval \<Rightarrow> string \<times> string" where
  "generate_token jwt_encode isoformat SECRET_KEY utcnow user_id username role =
     (let expiration = utcnow + 3600000000;
          payload = [''id'' \<mapsto> user_id, ''username'' \<mapsto> username, ''role'' \<mapsto> role,
                     ''exp'' \<mapsto> DatetimeV expiration];
          token = jwt_encode payload SECRET_KEY
      in (token, isoformat expiration))"

subsection \<open>token_required\<close>

text \<open>
  What a call of the decorated route gives: a JSON error body with its HTTP status
  (\<open>jsonify({'error': msg}), code\<close>), the value returned by the wrapped route, or an
  exception that leaves \<open>decorated\<close>.
\<close>

datatype 'r outcome = Response string nat | Returned 'r | Raised exn

text \<open>
  \<open>token_required jwt_decode SECRET_KEY now f\<close> is the function \<open>decorated\<close> that the
  decorator returns for the route \<open>f\<close>. \<open>jwt_decode token key now\<close> is
  \<open>jwt.decode(token, key, algorithms=['HS256'])\<close> called when the clock reads \<open>now\<close>:
  \<open>Inl e\<close> when it raises \<open>e\<close>, \<open>Inr data\<close> when it returns the payload. \<open>headers\<close> is
  \<open>request.headers\<close>, \<open>args\<close> stands for \<open>*args, **kwargs\<close>. The route may change the state
  of the application (its database), so it takes the state \<open>s\<close> and returns the new one;
  \<open>decorated\<close> itself never touches it.
\<close>

definition token_required ::
  "(string \<Rightarrow> string \<Rightarrow> int \<Rightarrow> exn + pydict) \<Rightarrow> string \<Rightarrow> int \<Rightarrow>
   (pydict \<Rightarrow> 'a \<Rightarrow> 's \<Rightarrow> 'r \<times> 's) \<Rightarrow> (string \<rightharpoonup> string) \<Rightarrow> 'a \<Rightarrow> 's \<Rightarrow> 'r outcome \<times> 's" where
  "token_required jwt_decode SECRET_KEY now f headers args s =
     (case headers ''Authorization'' of
        None \<Rightarrow> (Response ''Authorization header is missing!'' 401, s)
      | Some auth_header \<Rightarrow>
          if auth_header = [] then (Response ''Authorization header is missing!'' 401, s)
          else
            let parts = str_split auth_header in
            if length parts \<noteq> 2 then (Response ''Invalid token format!'' 401, s)
            else if str_lower (parts ! 0) \<noteq> ''bearer'' then (Response ''Invalid token format!'' 401, s)
            else
              let token = parts ! 1 in
              (case jwt_decode token SECRET_KEY now of
                 Inl ExpiredSignatureError \<Rightarrow> (Response ''Token has expired!'' 401, s)
               | Inl InvalidTokenError \<Rightarrow> (Response ''Invalid token!'' 401, s)
               | Inl e \<Rightarrow> (Raised e, s)
               | Inr data \<Rightarrow>
                   (case data ''id'' of
                      None \<Rightarrow> (Raised (KeyError ''id''), s)
                    | Some v_id \<Rightarrow>
                   (case data ''username'' of
                      None \<Rightarrow> (Raised (KeyError ''username''), s)
                    | Some v_username \<Rightarrow>
                   (case data ''role'' of
                      None \<Rightarrow> (Raised (KeyError ''role''), s)
                    | Some v_role \<Rightarrow>
                        let current_user = [''id'' \<mapsto> v_id, ''username'' \<mapsto> v_username,
                                            ''role'' \<mapsto> v_role]
                        in (case f current_user args s of (r, s') \<Rightarrow> (Returned r, s')))))))"

section \<open>The PyJWT calls of jwtfunc.py\<close>

text \<open>
  \<open>generate_token\<close> and \<open>token_required\<close> take the two calls of the PyJWT library as
  parameters. What the library does in these calls (version 2.6 and later, with the
  arguments that the module passes: algorithm HS256, no audience, no issuer, no leeway)
  is modelled here, so that the expiry written by the one call can be followed into the
  check of the other.

  A token is the compact serialisation of a signed object. The signature is symbolic:
  a signed object names the algorithm and the key that signed it, and it verifies under
  that key only. How a signed object is written as text and read back
  (\<open>jws_serialize\<close>, \<open>jws_parse\<close>: Base64, JSON and the HMAC) are parameters.
\<close>

record jws =
  jws_alg :: string
  jws_payload :: pydict
  jws_key :: string

text \<open>
  \<open>jwt.encode\<close> replaces a \<open>datetime\<close> under \<open>exp\<close>, \<open>iat\<close> or \<open>nbf\<close> by its whole seconds
  since the epoch (\<open>timegm(value.utctimetuple())\<close>: the microseconds are dropped) and
  signs the payload. The model covers payloads whose other values are JSON values
  (\<open>None\<close>, integers, strings); on another payload the library raises \<open>TypeError\<close>.
\<close>

definition is_json_value :: "pyval \<Rightarrow> bool" where
  "is_json_value v = (case v of DatetimeV t \<Rightarrow> False | _ \<Rightarrow> True)"

definition to_timestamps :: "pydict \<Rightarrow> pydict" where
  "to_timestamps payload =
     (\<lambda>k. if k = ''exp'' \<or> k = ''iat'' \<or> k = ''nbf''
          then (case payload k of
                  Some (DatetimeV t) \<Rightarrow> Some (IntV (t div 1000000))
                | v \<Rightarrow> v)
          else payload k)"

definition pyjwt_encode :: "(jws \<Rightarrow> string) \<Rightarrow> pydict \<Rightarrow> string \<Rightarrow> string" where
  "pyjwt_encode jws_serialize payload key =
     jws_serialize \<lparr>jws_alg = ''HS256'', jws_payload = to_timestamps payload, jws_key = key\<rparr>"

text \<open>
  \<open>int(v)\<close> on a claim: an integer is itself, \<open>None\<close> and a \<open>datetime\<close> raise
  \<open>TypeError\<close>; what \<open>int\<close> makes of a string (\<open>int_of_str\<close>: the number or \<open>ValueError\<close>)
  is a parameter. The library turns the \<open>ValueError\<close> into a \<open>DecodeError\<close> (an
  \<open>InvalidTokenError\<close>) and lets every other exception through.
\<close>

definition py_int :: "(string \<Rightarrow> exn + int) \<Rightarrow> pyval \<Rightarrow> exn + int" where
  "py_int int_of_str v =
     (case v of
        IntV n \<Rightarrow> Inr n
      | StrV s \<Rightarrow> int_of_str s
      | NoneV \<Rightarrow> Inl TypeError
      | DatetimeV t \<Rightarrow> Inl TypeError)"

definition claim_int :: "(string \<Rightarrow> exn + int) \<Rightarrow> pyval \<Rightarrow> exn + int" where
  "claim_int int_of_str v =
     (case py_int int_of_str v of
        Inl (ValueError m) \<Rightarrow> Inl InvalidTokenError
      | Inl e \<Rightarrow> Inl e
      | Inr n \<Rightarrow> Inr n)"

text \<open>
  The validations of the claims, in the order of the library. The clock \<open>now\<close> is in
  microseconds, a claim in seconds. \<open>iat\<close> and \<open>nbf\<close> must not lie in the future
  (\<open>ImmatureSignatureError\<close>, an \<open>InvalidTokenError\<close>); the token has expired when
  \<open>exp <= now\<close>; a token with a non-empty audience is refused when the caller names none
  (\<open>InvalidAudienceError\<close>, an \<open>InvalidTokenError\<close>).
\<close>

definition validate_iat :: "(string \<Rightarrow> exn + int) \<Rightarrow> pydict \<Rightarrow> int \<Rightarrow> exn + unit" where
  "validate_iat int_of_str payload now =
     (case payload ''iat'' of
        None \<Rightarrow> Inr ()
      | Some v \<Rightarrow>
          and_then (claim_int int_of_str v)
            (\<lambda>iat. if now < iat * 1000000 then Inl InvalidTokenError else Inr ()))"

definition validate_nbf :: "(string \<Rightarrow> exn + int) \<Rightarrow> pydict \<Rightarrow> int \<Rightarrow> exn + unit" where
  "validate_nbf int_of_str payload now =
     (case payload ''nbf'' of
        None \<Rightarrow> Inr ()
      | Some v \<Rightarrow>
          and_then (claim_int int_of_str v)
            (\<lambda>nbf. if now < nbf * 1000000 then Inl InvalidTokenError else Inr ()))"

definition validate_exp :: "(string \<Rightarrow> exn + int) \<Rightarrow> pydict \<Rightarrow> int \<Rightarrow> exn + unit" where
  "validate_exp int_of_str payload now =
     (case payload ''exp'' of
        None \<Rightarrow> Inr ()
      | Some v \<Rightarrow>
          and_then (claim_int int_of_str v)
            (\<lambda>exp. if exp * 1000000 \<le> now then Inl ExpiredSignatureError else Inr ()))"

definition validate_aud :: "pydict \<Rightarrow> exn + unit" where
  "validate_aud payload =
     (case payload ''aud'' of
        None \<Rightarrow> Inr ()
      | Some v \<Rightarrow> if truthy v then Inl InvalidTokenError else Inr ())"

definition validate_claims :: "(string \<Rightarrow> exn + int) \<Rightarrow> pydict \<Rightarrow> int \<Rightarrow> exn + pydict" where
  "validate_claims int_of_str payload now =
     and_then (validate_iat int_of_str payload now) (\<lambda>u1.
     and_then (validate_nbf int_of_str payload now) (\<lambda>u2.
     and_then (validate_exp int_of_str payload now) (\<lambda>u3.
     and_then (validate_aud payload) (\<lambda>u4.
       Inr payload))))"

text \<open>
  \<open>jwt.decode(token, key, algorithms=['HS256'])\<close>: a text that is no token
  (\<open>DecodeError\<close>), another algorithm (\<open>InvalidAlgorithmError\<close>) and a signature that does
  not verify under the key (\<open>InvalidSignatureError\<close>) are \<open>InvalidTokenError\<close>s, raised
  before any claim is looked at; then the claims are validated.
\<close>

definition pyjwt_decode ::
  "(string \<Rightarrow> jws option) \<Rightarrow> (string \<Rightarrow> exn + int) \<Rightarrow> string \<Rightarrow> string \<Rightarrow> int \<Rightarrow> exn + pydict" where
  "pyjwt_decode jws_parse int_of_str token key now =
     (case jws_parse token of
        None \<Rightarrow> Inl InvalidTokenError
      | Some j \<Rightarrow>
          if jws_alg j \<noteq> ''HS256'' then Inl InvalidTokenError
          else if jws_key j \<noteq> key then Inl InvalidTokenError
          else validate_claims int_of_str (jws_payload j) now)"

section \<open>db_operations.py\<close>

subsection \<open>Rows and the store\<close>

text \<open>
  A row of each table is a record of its columns, named as the keyword arguments with
  which the module builds the row. A column holds the Python value that was assigned to
  it; the primary key is assigned by the store. The \<open>id\<close> columns and the columns of a
  job whose names the applications table has too carry the table's name.
\<close>

record user =
  user_pk :: int
  username :: pyval
  email :: pyval
  password_hash :: pyval
  role :: pyval
  phone_number :: pyval
  address :: pyval
  first_name :: pyval
  last_name :: pyval
  company_name :: pyval
  website :: pyval
  contact_info :: pyval

record job =
  job_pk :: int
  title :: pyval
  description :: pyval
  requirements :: pyval
  job_employer_id :: pyval
  salary :: pyval
  location :: pyval
  job_type :: pyval
  application_deadline :: pyval
  skills_required :: pyval
  preferred_qualifications :: pyval

record application =
  application_pk :: int
  job_id :: pyval
  employer_id :: pyval
  user_id :: pyval
  years_of_experience :: pyval
  resume :: pyval
  cover_letter :: pyval
  status :: pyval
  name :: pyval
  school_name :: pyval
  portfolio :: pyval
  skills :: pyval

record store =
  users :: "user list"
  jobs :: "job list"
  applications :: "application list"

text \<open>
  The world outside a call: \<open>db\<close> is what the database holds committed; \<open>faults\<close> says,
  for each coming round trip to the database in turn, whether it raises
  \<open>SQLAlchemyError\<close> (no entry left: it does not); \<open>open_sessions\<close> counts the sessions
  made by \<open>SessionLocal()\<close> and not closed yet.
\<close>

record world =
  db :: store
  faults :: "bool list"
  open_sessions :: nat

text \<open>
  A session holds the view of its transaction: the committed rows with the changes of
  the session not committed yet.
\<close>

record session =
  txn :: store

subsection \<open>The session operations that the module calls\<close>

definition SessionLocal :: "world \<Rightarrow> session \<times> world" where
  "SessionLocal w = (\<lparr>txn = db w\<rparr>, w\<lparr>open_sessions := open_sessions w + 1\<rparr>)"

text \<open>One round trip: whether it raises, and the world with that fault consumed.\<close>

definition round_trip :: "world \<Rightarrow> bool \<times> world" where
  "round_trip w = (case faults w of [] \<Rightarrow> (False, w) | b # bs \<Rightarrow> (b, w\<lparr>faults := bs\<rparr>))"

text \<open>\<open>session.query(T)...all()\<close> with the filter \<open>p\<close> on the rows \<open>rows\<close> of table \<open>T\<close>.\<close>

definition query_all ::
  "(store \<Rightarrow> 'row list) \<Rightarrow> ('row \<Rightarrow> bool) \<Rightarrow> session \<Rightarrow> world \<Rightarrow> (exn + 'row list) \<times> world" where
  "query_all rows p session w =
     (case round_trip w of
        (True, w') \<Rightarrow> (Inl SQLAlchemyError, w')
      | (False, w') \<Rightarrow> (Inr (filter p (rows (txn session))), w'))"

text \<open>\<open>.one()\<close>: exactly one row, else \<open>NoResultFound\<close> or \<open>MultipleResultsFound\<close>.\<close>

definition query_one ::
  "(store \<Rightarrow> 'row list) \<Rightarrow> ('row \<Rightarrow> bool) \<Rightarrow> session \<Rightarrow> world \<Rightarrow> (exn + 'row) \<times> world" where
  "query_one rows p session w =
     (case query_all rows p session w of
        (Inl e, w') \<Rightarrow> (Inl e, w')
      | (Inr [], w') \<Rightarrow> (Inl NoResultFound, w')
      | (Inr [r], w') \<Rightarrow> (Inr r, w')
      | (Inr (r # r' # rs), w') \<Rightarrow> (Inl MultipleResultsFound, w'))"

text \<open>\<open>.first()\<close>: the first row or \<open>None\<close>.\<close>

definition query_first ::
  "(store \<Rightarrow> 'row list) \<Rightarrow> ('row \<Rightarrow> bool) \<Rightarrow> session \<Rightarrow> world \<Rightarrow> (exn + 'row option) \<times> world" where
  "query_first rows p session w =
     (case query_all rows p session w of
        (Inl e, w') \<Rightarrow> (Inl e, w')
      | (Inr [], w') \<Rightarrow> (Inr None, w')
      | (Inr (r # rs), w') \<Rightarrow> (Inr (Some r), w'))"

text \<open>\<open>session.query(T).get(k)\<close>: the row with primary key \<open>k\<close> or \<open>None\<close>.\<close>

definition query_get ::
  "(store \<Rightarrow> 'row list) \<Rightarrow> ('row \<Rightarrow> int) \<Rightarrow> int \<Rightarrow> session \<Rightarrow> world \<Rightarrow> (exn + 'row option) \<times> world" where
  "query_get rows pk k session w =
     (case round_trip w of
        (True, w') \<Rightarrow> (Inl SQLAlchemyError, w')
      | (False, w') \<Rightarrow> (Inr (find (\<lambda>r. pk r = k) (rows (txn session))), w'))"

text \<open>
  \<open>session.delete(row)\<close> marks the row for deletion in the transaction: the row with
  that primary key leaves the view. Nothing reaches the database before the commit.
\<close>

definition delete_application_row :: "session \<Rightarrow> application \<Rightarrow> session" where
  "delete_application_row session a =
     session\<lparr>txn := (txn session)\<lparr>applications :=
        filter (\<lambda>r. application_pk r \<noteq> application_pk a) (applications (txn session))\<rparr>\<rparr>"

definition delete_job_row :: "session \<Rightarrow> job \<Rightarrow> session" where
  "delete_job_row session j =
     session\<lparr>txn := (txn session)\<lparr>jobs :=
        filter (\<lambda>r. job_pk r \<noteq> job_pk j) (jobs (txn session))\<rparr>\<rparr>"

text \<open>
  \<open>session.add(application)\<close>: the new row joins the view, with a primary key above
  every key of the table.
\<close>

definition fresh_application_pk :: "store \<Rightarrow> int" where
  "fresh_application_pk st = foldr max (map application_pk (applications st)) 0 + 1"

definition add_application :: "session \<Rightarrow> application \<Rightarrow> session \<times> application" where
  "add_application session a =
     (let a' = a\<lparr>application_pk := fresh_application_pk (txn session)\<rparr>
      in (session\<lparr>txn := (txn session)\<lparr>applications := applications (txn session) @ [a']\<rparr>\<rparr>, a'))"

text \<open>Assigning \<open>application.status = v\<close> on a row loaded in the session.\<close>

definition set_status :: "session \<Rightarrow> application \<Rightarrow> pyval \<Rightarrow> session \<times> application" where
  "set_status session a v =
     (let a' = a\<lparr>status := v\<rparr>
      in (session\<lparr>txn := (txn session)\<lparr>applications :=
            map (\<lambda>r. if application_pk r = application_pk a then a' else r)
                (applications (txn session))\<rparr>\<rparr>, a'))"

text \<open>
  \<open>session.commit()\<close>: one round trip; when it raises, the database keeps what it held,
  otherwise the view of the transaction becomes the committed state.
\<close>

definition commit :: "session \<Rightarrow> world \<Rightarrow> (exn + unit) \<times> world" where
  "commit session w =
     (case round_trip w of
        (True, w') \<Rightarrow> (Inl SQLAlchemyError, w')
      | (False, w') \<Rightarrow> (Inr (), w'\<lparr>db := txn session\<rparr>))"

text \<open>
  After a commit the rows loaded in the session are expired: the next read of an
  attribute of such a row loads the row again by its primary key, in one round trip.
  It raises \<open>SQLAlchemyError\<close> when the round trip does, and when the row is gone
  (\<open>ObjectDeletedError\<close>).
\<close>

definition refresh ::
  "(store \<Rightarrow> 'row list) \<Rightarrow> ('row \<Rightarrow> int) \<Rightarrow> 'row \<Rightarrow> session \<Rightarrow> world \<Rightarrow> (exn + 'row) \<times> world" where
  "refresh rows pk r session w =
     (case round_trip w of
        (True, w') \<Rightarrow> (Inl SQLAlchemyError, w')
      | (False, w') \<Rightarrow>
          (case find (\<lambda>x. pk x = pk r) (rows (db w')) of
             None \<Rightarrow> (Inl SQLAlchemyError, w')
           | Some r' \<Rightarrow> (Inr r', w')))"

text \<open>\<open>session.rollback()\<close> drops the changes of the session.\<close>

definition rollback :: "session \<Rightarrow> world \<Rightarrow> session" where
  "rollback session w = session\<lparr>txn := db w\<rparr>"

text \<open>\<open>session.close()\<close>.\<close>

definition close :: "session \<Rightarrow> world \<Rightarrow> world" where
  "close session w = w\<lparr>open_sessions := open_sessions w - 1\<rparr>"

subsection \<open>Dictionary access and exception classes\<close>

text \<open>\<open>d[k]\<close> raises \<open>KeyError\<close> on a missing key; \<open>d.get(k)\<close> gives \<open>None\<close> there.\<close>

definition subscript :: "pydict \<Rightarrow> string \<Rightarrow> exn + pyval" where
  "subscript d k = (case d k of None \<Rightarrow> Inl (KeyError k) | Some v \<Rightarrow> Inr v)"

definition dict_get :: "pydict \<Rightarrow> string \<Rightarrow> pyval" where
  "dict_get d k = (case d k of None \<Rightarrow> NoneV | Some v \<Rightarrow> v)"

text \<open>What \<open>except SQLAlchemyError\<close> catches: the class and its subclasses.\<close>

fun is_SQLAlchemyError :: "exn \<Rightarrow> bool" where
  "is_SQLAlchemyError SQLAlchemyError = True"
| "is_SQLAlchemyError NoResultFound = True"
| "is_SQLAlchemyError MultipleResultsFound = True"
| "is_SQLAlchemyError e = False"

subsection \<open>login_user and get_all_users\<close>

text \<open>
  \<open>check_password user password\<close> is the method \<open>User.check_password\<close> of the model
  class, and \<open>to_dict\<close> the method \<open>to_dict\<close> of a model class; the model classes are
  not part of the two modules, so both are parameters. Each operation takes the world
  and returns the world after the call with \<open>Inr\<close> the value returned or \<open>Inl\<close> the
  exception raised.
\<close>

definition login_user ::
  "(user \<Rightarrow> pyval \<Rightarrow> bool) \<Rightarrow> pyval \<Rightarrow> pyval \<Rightarrow> world \<Rightarrow> (exn + user option) \<times> world" where
  "login_user check_password email_arg password w0 =
     (let (session, w1) = SessionLocal w0 in
      case query_one users (\<lambda>u. email u = email_arg) session w1 of
        (Inr user, w2) \<Rightarrow>
          if check_password user password then (Inr (Some user), w2) else (Inr None, w2)
      | (Inl NoResultFound, w2) \<Rightarrow> (Inr None, w2)
      | (Inl MultipleResultsFound, w2) \<Rightarrow> (Inr None, w2)
      | (Inl e, w2) \<Rightarrow> if is_SQLAlchemyError e then (Inr None, w2) else (Inl e, w2))"

definition get_all_users :: "(user \<Rightarrow> 'd) \<Rightarrow> world \<Rightarrow> (exn + 'd list) \<times> world" where
  "get_all_users to_dict w0 =
     (let (session, w1) = SessionLocal w0 in
      case query_all users (\<lambda>u. True) session w1 of
        (Inl e, w2) \<Rightarrow> (Inl e, w2)
      | (Inr us, w2) \<Rightarrow> (Inr (map to_dict us), w2))"

subsection \<open>delete_job\<close>

text \<open>
  The body of the \<open>try\<close> gives the value returned or the exception with the session as
  it stands; \<open>except SQLAlchemyError\<close> rolls back and returns \<open>False\<close>; \<open>finally\<close> closes
  the session on every path.
\<close>

definition delete_job :: "int \<Rightarrow> world \<Rightarrow> (exn + bool) \<times> world" where
  "delete_job job_id_arg w0 =
     (let (session, w1) = SessionLocal w0;
          (body, session', w') =
            (case query_get jobs job_pk job_id_arg session w1 of
               (Inl e, w2) \<Rightarrow> (Inl e, session, w2)
             | (Inr None, w2) \<Rightarrow> (Inr False, session, w2)
             | (Inr (Some job), w2) \<Rightarrow>
                 (case query_all applications (\<lambda>a. job_id a = IntV job_id_arg) session w2 of
                    (Inl e, w3) \<Rightarrow> (Inl e, session, w3)
                  | (Inr related_applications, w3) \<Rightarrow>
                      let session1 = foldl delete_application_row session related_applications;
                          session2 = delete_job_row session1 job
                      in (case commit session2 w3 of
                            (Inl e, w4) \<Rightarrow> (Inl e, session2, w4)
                          | (Inr u, w4) \<Rightarrow> (Inr True, session2, w4))));
          (result, session'') =
            (case body of
               Inl e \<Rightarrow> if is_SQLAlchemyError e then (Inr False, rollback session' w')
                        else (Inl e, session')
             | Inr b \<Rightarrow> (Inr b, session'))
      in (result, close session'' w'))"

subsection \<open>create_application\<close>

text \<open>
  The row built by \<open>Application(...)\<close>: the keyword arguments are evaluated in the order
  written, so the first missing key raises. The primary key is not set before the row is
  added.
\<close>

definition new_application :: "pydict \<Rightarrow> exn + application" where
  "new_application data =
     and_then (subscript data ''job_id'') (\<lambda>v_job_id.
     and_then (subscript data ''employer_id'') (\<lambda>v_employer_id.
     and_then (subscript data ''user_id'') (\<lambda>v_user_id.
     and_then (Inr (dict_get data ''years_of_experience'')) (\<lambda>v_years_of_experience.
     and_then (subscript data ''resume'') (\<lambda>v_resume.
     and_then (subscript data ''cover_letter'') (\<lambda>v_cover_letter.
     and_then (subscript data ''status'') (\<lambda>v_status.
     and_then (subscript data ''name'') (\<lambda>v_name.
     and_then (subscript data ''school_name'') (\<lambda>v_school_name.
     and_then (subscript data ''portfolio'') (\<lambda>v_portfolio.
     and_then (subscript data ''skills'') (\<lambda>v_skills.
       Inr \<lparr>application_pk = 0, job_id = v_job_id, employer_id = v_employer_id,
            user_id = v_user_id, years_of_experience = v_years_of_experience,
            resume = v_resume, cover_letter = v_cover_letter, status = v_status,
            name = v_name, school_name = v_school_name, portfolio = v_portfolio,
            skills = v_skills\<rparr>)))))))))))"

definition create_application :: "pydict \<Rightarrow> world \<Rightarrow> (exn + application) \<times> world" where
  "create_application data w0 =
     (let (session, w1) = SessionLocal w0 in
      case subscript data ''user_id'' of
        Inl e \<Rightarrow> (Inl e, w1)
      | Inr v_user_id \<Rightarrow>
     (case subscript data ''job_id'' of
        Inl e \<Rightarrow> (Inl e, w1)
      | Inr v_job_id \<Rightarrow>
     (case query_first applications (\<lambda>a. user_id a = v_user_id \<and> job_id a = v_job_id)
             session w1 of
        (Inl e, w2) \<Rightarrow> (Inl e, w2)
      | (Inr (Some existing_application), w2) \<Rightarrow>
          (Inl (ValueError ''You have already applied for this job''), w2)
      | (Inr None, w2) \<Rightarrow>
          (case new_application data of
             Inl e \<Rightarrow> (Inl e, w2)
           | Inr application \<Rightarrow>
               let (session1, application1) = add_application session application in
               (case commit session1 w2 of
                  (Inl e, w3) \<Rightarrow> (Inl e, w3)
                | (Inr u, w3) \<Rightarrow> (Inr application1, w3))))))"

subsection \<open>update_application_status\<close>

text \<open>
  \<open>application.to_dict()\<close> is called after the commit and inside the \<open>try\<close>: it reads
  the attributes of the expired row, which loads the row again, and an
  \<open>SQLAlchemyError\<close> of that round trip is caught like any other.
\<close>

definition update_application_status ::
  "(application \<Rightarrow> 'd) \<Rightarrow> int \<Rightarrow> pydict \<Rightarrow> world \<Rightarrow> (exn + 'd option) \<times> world" where
  "update_application_status to_dict application_id data w0 =
     (let (session, w1) = SessionLocal w0;
          (body, session', w') =
            (case query_get applications application_pk application_id session w1 of
               (Inl e, w2) \<Rightarrow> (Inl e, session, w2)
             | (Inr None, w2) \<Rightarrow> (Inr None, session, w2)
             | (Inr (Some application), w2) \<Rightarrow>
                 let (session1, application1) =
                       (case data ''status'' of
                          None \<Rightarrow> (session, application)
                        | Some v \<Rightarrow> set_status session application v)
                 in (case commit session1 w2 of
                       (Inl e, w3) \<Rightarrow> (Inl e, session1, w3)
                     | (Inr u, w3) \<Rightarrow>
                         (case refresh applications application_pk application1 session1 w3 of
                            (Inl e, w4) \<Rightarrow> (Inl e, session1, w4)
                          | (Inr application2, w4) \<Rightarrow>
                              let application_dict = to_dict application2
                              in (Inr (Some application_dict), session1, w4))));
          (result, session'') =
            (case body of
               Inl e \<Rightarrow> if is_SQLAlchemyError e then (Inr None, rollback session' w')
                        else (Inl e, session')
             | Inr r \<Rightarrow> (Inr r, session'))
      in (result, close session'' w'))"

subsection \<open>The invariant of the applications table\<close>

text \<open>
  The data model allows at most one application for a pair of \<open>user_id\<close> and \<open>job_id\<close>.
  No constraint of the store enforces it; \<open>create_application\<close> checks before it inserts.
\<close>

definition one_application_per_pair :: "store \<Rightarrow> bool" where
  "one_application_per_pair st \<longleftrightarrow>
     distinct (map (\<lambda>a. (user_id a, job_id a)) (applications st))"

section \<open>Example data\<close>

text \<open>
  A small store on which the theorems below are instantiated: two users registered
  with the same email, two jobs, and one application for each job. The example hasher
  accepts a password equal to the stored hash; the example serialisation of an
  application gives its key and its status.
\<close>

definition ann :: user where
  "ann = \<lparr>user_pk = 1, username = StrV ''ann'', email = StrV ''ann@example.org'',
          password_hash = StrV ''hash-a'', role = StrV ''job_seeker'',
          phone_number = StrV ''555-0100'', address = StrV ''1 Main St'',
          first_name = StrV ''Ann'', last_name = StrV ''Lee'', company_name = NoneV,
          website = NoneV, contact_info = NoneV\<rparr>"

definition acme :: user where
  "acme = \<lparr>user_pk = 2, username = StrV ''acme'', email = StrV ''ann@example.org'',
           password_hash = StrV ''hash-b'', role = StrV ''employer'',
           phone_number = StrV ''555-0101'', address = StrV ''2 Main St'',
           first_name = NoneV, last_name = NoneV, company_name = StrV ''Acme'',
           website = StrV ''acme.example.org'', contact_info = StrV ''hr''\<rparr>"

definition job1 :: job where
  "job1 = \<lparr>job_pk = 1, title = StrV ''Welder'', description = StrV ''Welding'',
           requirements = StrV ''none'', job_employer_id = IntV 2, salary = IntV 100,
           location = StrV ''Harare'', job_type = StrV ''full'',
           application_deadline = StrV ''2025-01-01'', skills_required = StrV ''welding'',
           preferred_qualifications = NoneV\<rparr>"

definition job2 :: job where
  "job2 = job1\<lparr>job_pk := 2, title := StrV ''Driver''\<rparr>"

definition app1 :: application where
  "app1 = \<lparr>application_pk = 1, job_id = IntV 1, employer_id = IntV 2, user_id = IntV 1,
           years_of_experience = NoneV, resume = StrV ''cv.pdf'',
           cover_letter = StrV ''Dear Acme'', status = StrV ''pending'', name = StrV ''Ann Lee'',
           school_name = StrV ''UZ'', portfolio = NoneV, skills = StrV ''welding''\<rparr>"

definition app2 :: application where
  "app2 = app1\<lparr>application_pk := 2, job_id := IntV 2\<rparr>"

definition example_db :: store where
  "example_db = \<lparr>users = [ann, acme], jobs = [job1, job2], applications = [app1, app2]\<rparr>"

definition example_world :: "bool list \<Rightarrow> world" where
  "example_world fs = \<lparr>db = example_db, faults = fs, open_sessions = 0\<rparr>"

definition example_check_password :: "user \<Rightarrow> pyval \<Rightarrow> bool" where
  "example_check_password u p \<longleftrightarrow> password_hash u = p"

definition example_to_dict :: "application \<Rightarrow> int \<times> pyval" where
  "example_to_dict a = (application_pk a, status a)"

definition example_decode :: "string \<Rightarrow> string \<Rightarrow> int \<Rightarrow> exn + pydict" where
  "example_decode token key now =
     (if key \<noteq> ''secret'' then Inl InvalidTokenError
      else if token = ''fresh'' then
        (if now < 3600000000
         then Inr [''id'' \<mapsto> IntV 7, ''username'' \<mapsto> StrV ''ann'', ''role'' \<mapsto> StrV ''employer'',
                   ''exp'' \<mapsto> IntV 3600]
         else Inl ExpiredSignatureError)
      else if token = ''old'' then Inl ExpiredSignatureError
      else if token = ''anonymous'' then Inr [''id'' \<mapsto> IntV 7, ''exp'' \<mapsto> IntV 3600]
      else Inl InvalidTokenError)"

text \<open>
  An example serialisation: the text of a token tells whether the example secret
  signed it, the user name and the expiry; \<open>example_parse\<close> reads the tokens of the
  examples back. The example \<open>int\<close> of a string accepts the text \<open>3600\<close>.
\<close>

definition example_serialize :: "jws \<Rightarrow> string" where
  "example_serialize j =
     (if jws_key j = ''secret'' then ''signed'' else ''forged'') @ ''.'' @
     (case jws_payload j ''username'' of Some (StrV u) \<Rightarrow> u | _ \<Rightarrow> ''nobody'') @ ''.'' @
     (case jws_payload j ''exp'' of
        Some (IntV e) \<Rightarrow> if e = 3600 then ''3600'' else ''later''
      | _ \<Rightarrow> ''never'')"

definition example_parse :: "string \<Rightarrow> jws option" where
  "example_parse token =
     (if token = ''signed.ann.3600'' then
        Some \<lparr>jws_alg = ''HS256'',
              jws_payload = [''id'' \<mapsto> IntV 7, ''username'' \<mapsto> StrV ''ann'',
                             ''role'' \<mapsto> StrV ''employer'', ''exp'' \<mapsto> IntV 3600],
              jws_key = ''secret''\<rparr>
      else if token = ''forged.ann.3600'' then
        Some \<lparr>jws_alg = ''HS256'',
              jws_payload = [''id'' \<mapsto> IntV 7, ''username'' \<mapsto> StrV ''ann'',
                             ''role'' \<mapsto> StrV ''employer'', ''exp'' \<mapsto> IntV 3600],
              jws_key = ''guess''\<rparr>
      else None)"

definition example_int_of_str :: "string \<Rightarrow> exn + int" where
  "example_int_of_str s = (if s = ''3600'' then Inr 3600 else Inl (ValueError s))"

definition example_route :: "pydict \<Rightarrow> unit \<Rightarrow> nat \<Rightarrow> (pyval option \<times> pyval option \<times> pyval option) \<times> nat" where
  "example_route current_user args calls =
     ((current_user ''id'', current_user ''username'', current_user ''role''), Suc calls)"

lemmas example_defs = ann_def acme_def job1_def job2_def app1_def app2_def example_db_def
  example_world_def example_check_password_def example_to_dict_def

section \<open>Properties of jwtfunc.py\<close>

subsection \<open>Splitting and lower-casing the header\<close>

lemma split_acc_nospace:
  "\<forall>c\<in>set t. \<not> isspace c \<Longrightarrow> split_acc cur t = (if cur = [] \<and> t = [] then [] else [rev cur @ t])"
  by (induction t arbitrary: cur) auto

lemma str_split_bearer:
  assumes "tok \<noteq> []" "\<forall>c\<in>set tok. \<not> isspace c"
  shows "str_split (''Bearer '' @ tok) = [''Bearer'', tok]"
  using assms by (simp add: str_split_def isspace_def split_acc_nospace)

lemma str_lower_Bearer: "str_lower ''Bearer'' = ''bearer''"
  by code_simp

lemma str_split_Nil: "str_split [] = []"
  by (simp add: str_split_def)

lemma str_lower_examples:
  "str_lower ''bearer'' = ''bearer''" "str_lower ''BEARER'' = ''bearer''"
  "str_lower ''Token'' = ''token''"
  by code_simp+

lemma str_split_examples:
  "str_split ''Bearer fresh'' = [''Bearer'', ''fresh'']"
  "str_split ''bearer old'' = [''bearer'', ''old'']"
  "str_split ''BEARER forged'' = [''BEARER'', ''forged'']"
  "str_split ''Bearer anonymous'' = [''Bearer'', ''anonymous'']"
  "str_split ''Token fresh'' = [''Token'', ''fresh'']"
  "str_split ''Bearer'' = [''Bearer'']"
  by (simp_all add: str_split_def isspace_def)

subsection \<open>The PyJWT calls\<close>

lemma to_timestamps_issued:
  "to_timestamps [''id'' \<mapsto> uid, ''username'' \<mapsto> uname, ''role'' \<mapsto> urole,
                  ''exp'' \<mapsto> DatetimeV t]
   = [''id'' \<mapsto> uid, ''username'' \<mapsto> uname, ''role'' \<mapsto> urole,
      ''exp'' \<mapsto> IntV (t div 1000000)]"
  by (rule ext) (simp add: to_timestamps_def)

lemma generate_token_pyjwt:
  "fst (generate_token (pyjwt_encode jws_serialize) isoformat key utcnow uid uname urole)
   = jws_serialize \<lparr>jws_alg = ''HS256'',
        jws_payload = [''id'' \<mapsto> uid, ''username'' \<mapsto> uname, ''role'' \<mapsto> urole,
                       ''exp'' \<mapsto> IntV ((utcnow + 3600000000) div 1000000)],
        jws_key = key\<rparr>"
  by (simp add: generate_token_def pyjwt_encode_def to_timestamps_issued Let_def)

lemma validate_claims_issued:
  assumes "p ''iat'' = None" "p ''nbf'' = None" "p ''aud'' = None" "p ''exp'' = Some (IntV e)"
  shows "validate_claims int_of_str p now
         = (if e * 1000000 \<le> now then Inl ExpiredSignatureError else Inr p)"
  using assms
  by (simp add: validate_claims_def validate_iat_def validate_nbf_def validate_exp_def
        validate_aud_def claim_int_def py_int_def and_then_def)



lemma str_split_tokens:
  "str_split ''Bearer signed.ann.3600'' = [''Bearer'', ''signed.ann.3600'']"
  "str_split ''Bearer forged.ann.3600'' = [''Bearer'', ''forged.ann.3600'']"
  by (simp_all add: str_split_def isspace_def)

lemma example_token:
  "fst (generate_token (pyjwt_encode example_serialize) (\<lambda>t. ''1970-01-01T01:00:00.900000'')
          ''secret'' 900000 (IntV 7) (StrV ''ann'') (StrV ''employer'')) = ''signed.ann.3600''"
  by (simp add: generate_token_pyjwt example_serialize_def)

subsection \<open>Issuing and presenting a token\<close>

text \<open>
  C1 (token round trip), as amended. For every \<open>user_id\<close>, \<open>username\<close> and \<open>role\<close> that
  are JSON values: the token that \<open>generate_token\<close> produces, presented to
  \<open>token_required\<close> as \<open>Bearer <token>\<close> under the same signing key before the whole
  second in which its one-hour expiry falls, is decoded to an identity with exactly that
  id, username and role, with which the wrapped route is called. The expiry that the
  token carries is the expiry of \<open>generate_token\<close> cut down to whole seconds, and the token
  has expired as soon as the clock reaches it. The serialisation of the signed payload
  is read back by the parser, and is a non-empty text without whitespace.
\<close>

theorem generate_token_round_trip:
  fixes f :: "pydict \<Rightarrow> 'a \<Rightarrow> 's \<Rightarrow> 'r \<times> 's"
  assumes before: "now < ((utcnow + 3600000000) div 1000000) * 1000000"
    and json: "is_json_value uid" "is_json_value uname" "is_json_value urole"
    and codec: "jws_parse (jws_serialize
                  \<lparr>jws_alg = ''HS256'',
                   jws_payload = [''id'' \<mapsto> uid, ''username'' \<mapsto> uname, ''role'' \<mapsto> urole,
                                  ''exp'' \<mapsto> IntV ((utcnow + 3600000000) div 1000000)],
                   jws_key = key\<rparr>)
                = Some \<lparr>jws_alg = ''HS256'',
                   jws_payload = [''id'' \<mapsto> uid, ''username'' \<mapsto> uname, ''role'' \<mapsto> urole,
                                  ''exp'' \<mapsto> IntV ((utcnow + 3600000000) div 1000000)],
                   jws_key = key\<rparr>"
    and tok: "fst (generate_token (pyjwt_encode jws_serialize) isoformat key utcnow uid uname urole) \<noteq> []"
             "\<forall>c \<in> set (fst (generate_token (pyjwt_encode jws_serialize) isoformat key utcnow
                                uid uname urole)). \<not> isspace c"
  shows "token_required (pyjwt_decode jws_parse int_of_str) key now f
           [''Authorization'' \<mapsto> ''Bearer '' @
              fst (generate_token (pyjwt_encode jws_serialize) isoformat key utcnow uid uname urole)]
           args s
         = (case f [''id'' \<mapsto> uid, ''username'' \<mapsto> uname, ''role'' \<mapsto> urole] args s of
              (r, s') \<Rightarrow> (Returned r, s'))"
proof -
  let ?P = "[''id'' \<mapsto> uid, ''username'' \<mapsto> uname, ''role'' \<mapsto> urole,
             ''exp'' \<mapsto> IntV ((utcnow + 3600000000) div 1000000)]"
  let ?t = "jws_serialize \<lparr>jws_alg = ''HS256'', jws_payload = ?P, jws_key = key\<rparr>"
  have t: "fst (generate_token (pyjwt_encode jws_serialize) isoformat key utcnow uid uname urole) = ?t"
    by (rule generate_token_pyjwt)
  have v: "validate_claims int_of_str ?P now = Inr ?P"
    using before by (simp add: validate_claims_issued)
  have d: "pyjwt_decode jws_parse int_of_str ?t key now = Inr ?P"
    by (simp add: pyjwt_decode_def codec v)
  have sp: "str_split (''Bearer '' @ ?t) = [''Bearer'', ?t]"
    using tok unfolding t by (rule str_split_bearer)
  show ?thesis
    unfolding t token_required_def
    by (simp add: sp str_lower_Bearer d del: append.simps)
qed

theorem generate_token_round_trip_witness:
  "(3599000000::int) < ((900000 + 3600000000) div 1000000) * 1000000
   \<and> fst (generate_token (pyjwt_encode example_serialize) (\<lambda>t. ''1970-01-01T01:00:00.900000'')
            ''secret'' 900000 (IntV 7) (StrV ''ann'') (StrV ''employer'')) = ''signed.ann.3600''
   \<and> token_required (pyjwt_decode example_parse example_int_of_str) ''secret'' 3599000000
        example_route
        [''Authorization'' \<mapsto> ''Bearer '' @
           fst (generate_token (pyjwt_encode example_serialize)
                  (\<lambda>t. ''1970-01-01T01:00:00.900000'') ''secret'' 900000
                  (IntV 7) (StrV ''ann'') (StrV ''employer''))]
        () 0
     = (Returned (Some (IntV 7), Some (StrV ''ann''), Some (StrV ''employer'')), 1)"
  using generate_token_round_trip
    [where now = 3599000000 and utcnow = 900000 and jws_parse = example_parse
       and jws_serialize = example_serialize and int_of_str = example_int_of_str
       and uid = "IntV 7" and uname = "StrV ''ann''"
       and urole = "StrV ''employer''" and key = "''secret''"
       and isoformat = "\<lambda>t. ''1970-01-01T01:00:00.900000''"
       and f = example_route and args = "()" and s = 0]
  by (simp add: example_token is_json_value_def example_serialize_def example_parse_def
        isspace_def example_route_def)

text \<open>
  The claim as it was stated, for every time before the one-hour expiry, fails in the
  last fraction of a second: a token issued 0.9 seconds after the epoch expires, by
  \<open>generate_token\<close>, at 3600.9 seconds, and is refused as expired at 3600.5 seconds.
\<close>

theorem generate_token_round_trip_counterexample:
  "(3600500000::int) < 900000 + 3600000000
   \<and> token_required (pyjwt_decode example_parse example_int_of_str) ''secret'' 3600500000
        example_route
        [''Authorization'' \<mapsto> ''Bearer '' @
           fst (generate_token (pyjwt_encode example_serialize)
                  (\<lambda>t. ''1970-01-01T01:00:00.900000'') ''secret'' 900000
                  (IntV 7) (StrV ''ann'') (StrV ''employer''))]
        () 0
     = (Response ''Token has expired!'' 401, 0)"
  by (simp add: example_token token_required_def str_split_tokens str_lower_Bearer
        pyjwt_decode_def example_parse_def validate_claims_issued)

subsection \<open>The gate\<close>

text \<open>
  C2 (short circuit of the access-control gate). For every request whose
  \<open>Authorization\<close> header is missing (absent or empty), malformed (not exactly two
  whitespace-separated parts, or a scheme other than \<open>bearer\<close> in any letter case),
  expired or invalid (the decoder raises \<open>ExpiredSignatureError\<close> or \<open>InvalidTokenError\<close>),
  the gate returns the corresponding 401 answer; the answer is the same for every wrapped
  route \<open>f\<close> and the state is returned as it was, so \<open>f\<close> is not invoked. On success \<open>f\<close>
  is invoked with the resolved identity as its first argument and its result is passed
  through unchanged.
\<close>

theorem token_required_short_circuit:
  fixes f :: "pydict \<Rightarrow> 'a \<Rightarrow> 's \<Rightarrow> 'r \<times> 's"
  shows
  "(headers ''Authorization'' = None \<or> headers ''Authorization'' = Some [] \<longrightarrow>
      token_required jwt_decode key now f headers args s
        = (Response ''Authorization header is missing!'' 401, s))
   \<and> (headers ''Authorization'' = Some h \<and> h \<noteq> [] \<and>
        (length (str_split h) \<noteq> 2 \<or> str_lower (str_split h ! 0) \<noteq> ''bearer'') \<longrightarrow>
      token_required jwt_decode key now f headers args s
        = (Response ''Invalid token format!'' 401, s))
   \<and> (headers ''Authorization'' = Some h \<and> str_split h = [scheme, token] \<and>
        str_lower scheme = ''bearer'' \<and> jwt_decode token key now = Inl ExpiredSignatureError \<longrightarrow>
      token_required jwt_decode key now f headers args s
        = (Response ''Token has expired!'' 401, s))
   \<and> (headers ''Authorization'' = Some h \<and> str_split h = [scheme, token] \<and>
        str_lower scheme = ''bearer'' \<and> jwt_decode token key now = Inl InvalidTokenError \<longrightarrow>
      token_required jwt_decode key now f headers args s
        = (Response ''Invalid token!'' 401, s))
   \<and> (headers ''Authorization'' = Some h \<and> str_split h = [scheme, token] \<and>
        str_lower scheme = ''bearer'' \<and> jwt_decode token key now = Inr data \<and>
        data ''id'' = Some v_id \<and> data ''username'' = Some v_username \<and>
        data ''role'' = Some v_role \<longrightarrow>
      token_required jwt_decode key now f headers args s
        = (case f [''id'' \<mapsto> v_id, ''username'' \<mapsto> v_username, ''role'' \<mapsto> v_role] args s of
             (r, s') \<Rightarrow> (Returned r, s')))"
proof (intro conjI impI)
  assume "headers ''Authorization'' = None \<or> headers ''Authorization'' = Some []"
  then show "token_required jwt_decode key now f headers args s
        = (Response ''Authorization header is missing!'' 401, s)"
    by (auto simp: token_required_def)
next
  assume "headers ''Authorization'' = Some h \<and> h \<noteq> [] \<and>
        (length (str_split h) \<noteq> 2 \<or> str_lower (str_split h ! 0) \<noteq> ''bearer'')"
  then show "token_required jwt_decode key now f headers args s
        = (Response ''Invalid token format!'' 401, s)"
    by (auto simp: token_required_def Let_def)
next
  assume a: "headers ''Authorization'' = Some h \<and> str_split h = [scheme, token] \<and>
        str_lower scheme = ''bearer'' \<and> jwt_decode token key now = Inl ExpiredSignatureError"
  then have "h \<noteq> []" by (auto simp: str_split_Nil)
  with a show "token_required jwt_decode key now f headers args s
        = (Response ''Token has expired!'' 401, s)"
    by (simp add: token_required_def)
next
  assume a: "headers ''Authorization'' = Some h \<and> str_split h = [scheme, token] \<and>
        str_lower scheme = ''bearer'' \<and> jwt_decode token key now = Inl InvalidTokenError"
  then have "h \<noteq> []" by (auto simp: str_split_Nil)
  with a show "token_required jwt_decode key now f headers args s
        = (Response ''Invalid token!'' 401, s)"
    by (simp add: token_required_def)
next
  assume a: "headers ''Authorization'' = Some h \<and> str_split h = [scheme, token] \<and>
        str_lower scheme = ''bearer'' \<and> jwt_decode token key now = Inr data \<and>
        data ''id'' = Some v_id \<and> data ''username'' = Some v_username \<and>
        data ''role'' = Some v_role"
  then have "h \<noteq> []" by (auto simp: str_split_Nil)
  with a show "token_required jwt_decode key now f headers args s
        = (case f [''id'' \<mapsto> v_id, ''username'' \<mapsto> v_username, ''role'' \<mapsto> v_role] args s of
             (r, s') \<Rightarrow> (Returned r, s'))"
    by (simp add: token_required_def)
qed

theorem token_required_short_circuit_witness:
  "token_required example_decode ''secret'' 10 example_route Map.empty () 0
     = (Response ''Authorization header is missing!'' 401, 0)
   \<and> token_required example_decode ''secret'' 10 example_route
        [''Authorization'' \<mapsto> ''Token fresh''] () 0
     = (Response ''Invalid token format!'' 401, 0)
   \<and> token_required example_decode ''secret'' 10 example_route
        [''Authorization'' \<mapsto> ''bearer old''] () 0
     = (Response ''Token has expired!'' 401, 0)
   \<and> token_required example_decode ''secret'' 10 example_route
        [''Authorization'' \<mapsto> ''BEARER forged''] () 0
     = (Response ''Invalid token!'' 401, 0)
   \<and> token_required example_decode ''secret'' 10 example_route
        [''Authorization'' \<mapsto> ''Bearer fresh''] () 0
     = (Returned (Some (IntV 7), Some (StrV ''ann''), Some (StrV ''employer'')), 1)"
  using
    token_required_short_circuit
      [where headers = Map.empty and jwt_decode = example_decode and key = "''secret''"
         and now = 10 and f = example_route and args = "()" and s = 0]
    token_required_short_circuit
      [where headers = "[''Authorization'' \<mapsto> ''Token fresh'']" and h = "''Token fresh''"
         and jwt_decode = example_decode and key = "''secret''"
         and now = 10 and f = example_route and args = "()" and s = 0]
    token_required_short_circuit
      [where headers = "[''Authorization'' \<mapsto> ''bearer old'']" and h = "''bearer old''"
         and scheme = "''bearer''" and token = "''old''"
         and jwt_decode = example_decode and key = "''secret''"
         and now = 10 and f = example_route and args = "()" and s = 0]
    token_required_short_circuit
      [where headers = "[''Authorization'' \<mapsto> ''BEARER forged'']" and h = "''BEARER forged''"
         and scheme = "''BEARER''" and token = "''forged''"
         and jwt_decode = example_decode and key = "''secret''"
         and now = 10 and f = example_route and args = "()" and s = 0]
    token_required_short_circuit
      [where headers = "[''Authorization'' \<mapsto> ''Bearer fresh'']" and h = "''Bearer fresh''"
         and scheme = "''Bearer''" and token = "''fresh''"
         and data = "[''id'' \<mapsto> IntV 7, ''username'' \<mapsto> StrV ''ann'', ''role'' \<mapsto> StrV ''employer'',
                   ''exp'' \<mapsto> IntV 3600]"
         and v_id = "IntV 7" and v_username = "StrV ''ann''" and v_role = "StrV ''employer''"
         and jwt_decode = example_decode and key = "''secret''"
         and now = 10 and f = example_route and args = "()" and s = 0]
  by (simp add: str_split_examples str_lower_examples str_lower_Bearer example_decode_def
        example_route_def)




text \<open>
  C10 (totality gap of the gate). For a token that is correctly signed and unexpired (the
  decoder returns its payload) but whose payload lacks one of the keys \<open>id\<close>, \<open>username\<close>
  and \<open>role\<close>, the gate neither returns an unauthorized answer nor invokes the wrapped
  route: the \<open>KeyError\<close> of the first missing key leaves \<open>decorated\<close> uncaught.
\<close>

theorem incomplete_payload_escapes:
  fixes f :: "pydict \<Rightarrow> 'a \<Rightarrow> 's \<Rightarrow> 'r \<times> 's"
  assumes "headers ''Authorization'' = Some h"
    and "str_split h = [scheme, token]"
    and "str_lower scheme = ''bearer''"
    and "jwt_decode token key now = Inr data"
    and "data ''id'' = None \<or> data ''username'' = None \<or> data ''role'' = None"
  shows "token_required jwt_decode key now f headers args s
           = (Raised (KeyError (if data ''id'' = None then ''id''
                                else if data ''username'' = None then ''username''
                                else ''role'')), s)
       \<and> (\<forall>msg code. fst (token_required jwt_decode key now f headers args s) \<noteq> Response msg code)
       \<and> (\<forall>r. fst (token_required jwt_decode key now f headers args s) \<noteq> Returned r)"
proof -
  from assms(2) have "h \<noteq> []" by (auto simp: str_split_Nil)
  with assms show ?thesis by (auto simp: token_required_def split: option.splits)
qed

theorem incomplete_payload_escapes_witness:
  "str_split ''Bearer anonymous'' = [''Bearer'', ''anonymous'']
   \<and> str_lower ''Bearer'' = ''bearer''
   \<and> example_decode ''anonymous'' ''secret'' 10 = Inr [''id'' \<mapsto> IntV 7, ''exp'' \<mapsto> IntV 3600]
   \<and> token_required example_decode ''secret'' 10 example_route
        [''Authorization'' \<mapsto> ''Bearer anonymous''] () 0
     = (Raised (KeyError ''username''), 0)"
  using incomplete_payload_escapes
      [where headers = "[''Authorization'' \<mapsto> ''Bearer anonymous'']" and h = "''Bearer anonymous''"
         and scheme = "''Bearer''" and token = "''anonymous''"
         and data = "[''id'' \<mapsto> IntV 7, ''exp'' \<mapsto> IntV 3600]"
         and jwt_decode = example_decode and key = "''secret''"
         and now = 10 and f = example_route and args = "()" and s = 0]
  by (simp add: str_split_examples str_lower_Bearer example_decode_def)

section \<open>Properties of db_operations.py\<close>

subsection \<open>Round trips, queries and commits\<close>

lemma round_trip_frame:
  "db (snd (round_trip w)) = db w" "open_sessions (snd (round_trip w)) = open_sessions w"
  by (auto simp: round_trip_def split: list.splits)

lemma round_trip_faults:
  "fst (round_trip w) \<longleftrightarrow> faults w \<noteq> [] \<and> hd (faults w)"
  "faults (snd (round_trip w)) = tl (faults w)"
  by (auto simp: round_trip_def split: list.splits)

lemma query_all_eq:
  "query_all rows p session w =
     (if fst (round_trip w) then Inl SQLAlchemyError else Inr (filter p (rows (txn session))),
      snd (round_trip w))"
  by (cases "round_trip w") (auto simp: query_all_def)

lemma query_get_eq:
  "query_get rows pk k session w =
     (if fst (round_trip w) then Inl SQLAlchemyError
      else Inr (find (\<lambda>r. pk r = k) (rows (txn session))),
      snd (round_trip w))"
  by (cases "round_trip w") (auto simp: query_get_def)

lemma commit_eq:
  "commit session w =
     (if fst (round_trip w) then (Inl SQLAlchemyError, snd (round_trip w))
      else (Inr (), (snd (round_trip w))\<lparr>db := txn session\<rparr>))"
  by (cases "round_trip w") (auto simp: commit_def)

lemma round_trip_db_update:
  "fst (round_trip (w\<lparr>db := d\<rparr>)) = fst (round_trip w)"
  "snd (round_trip (w\<lparr>db := d\<rparr>)) = (snd (round_trip w))\<lparr>db := d\<rparr>"
  by (auto simp: round_trip_def split: list.splits)

lemma refresh_eq:
  "refresh rows pk r session w =
     (if fst (round_trip w) then Inl SQLAlchemyError
      else case find (\<lambda>x. pk x = pk r) (rows (db w)) of
             None \<Rightarrow> Inl SQLAlchemyError
           | Some r' \<Rightarrow> Inr r',
      snd (round_trip w))"
  by (cases "round_trip w")
     (use round_trip_frame(1)[of w] in \<open>auto simp: refresh_def split: option.splits\<close>)

lemma take_faults_1: "True \<in> set (take (Suc 0) fs) \<longleftrightarrow> fs \<noteq> [] \<and> hd fs"
  by (cases fs) auto

lemma take_faults_Suc:
  "True \<in> set (take (Suc n) fs) \<longleftrightarrow> (fs \<noteq> [] \<and> hd fs) \<or> True \<in> set (take n (tl fs))"
  by (cases fs) auto

lemma foldl_delete_application_row:
  "txn (foldl delete_application_row session rel) =
     (txn session)\<lparr>applications :=
        filter (\<lambda>r. application_pk r \<notin> application_pk ` set rel) (applications (txn session))\<rparr>"
proof (induction rel arbitrary: session)
  case Nil
  show ?case by simp
next
  case (Cons a rel)
  have "txn (foldl delete_application_row session (a # rel)) =
          (txn (delete_application_row session a))\<lparr>applications :=
             filter (\<lambda>r. application_pk r \<notin> application_pk ` set rel)
               (applications (txn (delete_application_row session a)))\<rparr>"
    by (simp add: Cons.IH)
  also have "\<dots> = (txn session)\<lparr>applications :=
        filter (\<lambda>r. application_pk r \<notin> application_pk ` set (a # rel)) (applications (txn session))\<rparr>"
    by (simp add: delete_application_row_def conj_commute)
  finally show ?case .
qed

lemma filter_related_distinct:
  assumes "distinct (map pk xs)"
  shows "filter (\<lambda>r. pk r \<notin> pk ` set (filter P xs)) xs = filter (\<lambda>r. \<not> P r) xs"
proof (rule filter_cong[OF refl])
  fix r assume r: "r \<in> set xs"
  from assms have inj: "inj_on pk (set xs)" by (simp add: distinct_map)
  show "(pk r \<notin> pk ` set (filter P xs)) = (\<not> P r)"
    using r inj by (auto dest: inj_onD)
qed

lemma find_pk_Some: "find (\<lambda>r. pk r = k) xs = Some j \<Longrightarrow> pk j = k"
  by (auto simp: find_Some_iff)

lemma delete_job_eq:
  "delete_job jid w =
    (let w1 = w\<lparr>open_sessions := open_sessions w + 1\<rparr>;
         w2 = snd (round_trip w1); w3 = snd (round_trip w2); w4 = snd (round_trip w3)
     in if fst (round_trip w1) then (Inr False, close \<lparr>txn = db w\<rparr> w2)
        else case find (\<lambda>r. job_pk r = jid) (jobs (db w)) of
          None \<Rightarrow> (Inr False, close \<lparr>txn = db w\<rparr> w2)
        | Some j \<Rightarrow>
           if fst (round_trip w2) then (Inr False, close \<lparr>txn = db w\<rparr> w3)
           else if fst (round_trip w3) then (Inr False, close \<lparr>txn = db w\<rparr> w4)
           else (Inr True, close \<lparr>txn = db w\<rparr>
                   (w4\<lparr>db := (db w)\<lparr>jobs := filter (\<lambda>r. job_pk r \<noteq> job_pk j) (jobs (db w)),
                        applications := filter (\<lambda>r. application_pk r \<notin> application_pk `
                            set (filter (\<lambda>a. job_id a = IntV jid) (applications (db w))))
                            (applications (db w))\<rparr>\<rparr>)))"
  by (simp add: delete_job_def SessionLocal_def query_get_eq query_all_eq commit_eq Let_def
        rollback_def close_def delete_job_row_def foldl_delete_application_row
        split: option.splits)

subsection \<open>login_user\<close>

lemma login_user_eq:
  "login_user check_password e p w =
     (let w1 = w\<lparr>open_sessions := open_sessions w + 1\<rparr> in
      (if fst (round_trip w1) then Inr None
       else case filter (\<lambda>u. email u = e) (users (db w)) of
              [u] \<Rightarrow> if check_password u p then Inr (Some u) else Inr None
            | _ \<Rightarrow> Inr None,
       snd (round_trip w1)))"
  by (simp add: login_user_def SessionLocal_def query_one_def query_all_eq Let_def
           split: list.splits)

text \<open>
  C3 (login indistinguishability). For every email and password, \<open>login_user\<close> returns
  \<open>None\<close> when (a) no user record matches the email, (b) exactly one matches but the
  password check fails, or (c) more than one record matches; the value returned and the
  world left behind are the same in the three cases, whether the database answers or
  raises.
\<close>

theorem login_user_indistinguishable:
  "(filter (\<lambda>u. email u = e) (users (db w)) = []
    \<or> (\<exists>u. filter (\<lambda>u. email u = e) (users (db w)) = [u] \<and> \<not> check_password u p)
    \<or> 1 < length (filter (\<lambda>u. email u = e) (users (db w)))) \<longrightarrow>
   login_user check_password e p w
     = (Inr None, snd (round_trip (w\<lparr>open_sessions := open_sessions w + 1\<rparr>)))"
  by (auto simp: login_user_eq Let_def split: list.splits)

theorem login_user_indistinguishable_witness:
  "login_user example_check_password (StrV ''nobody@example.org'') (StrV ''hash-a'')
       (example_world [])
     = (Inr None, \<lparr>db = example_db, faults = [], open_sessions = 1\<rparr>)
   \<and> login_user example_check_password (StrV ''ann@example.org'') (StrV ''wrong'')
       \<lparr>db = example_db\<lparr>users := [ann]\<rparr>, faults = [], open_sessions = 0\<rparr>
     = (Inr None, \<lparr>db = example_db\<lparr>users := [ann]\<rparr>, faults = [], open_sessions = 1\<rparr>)
   \<and> login_user example_check_password (StrV ''ann@example.org'') (StrV ''hash-a'')
       (example_world [])
     = (Inr None, \<lparr>db = example_db, faults = [], open_sessions = 1\<rparr>)"
  using
    login_user_indistinguishable
      [where e = "StrV ''nobody@example.org''" and p = "StrV ''hash-a''"
         and w = "example_world []" and check_password = example_check_password]
    login_user_indistinguishable
      [where e = "StrV ''ann@example.org''" and p = "StrV ''wrong''"
         and w = "\<lparr>db = example_db\<lparr>users := [ann]\<rparr>, faults = [], open_sessions = 0\<rparr>"
         and check_password = example_check_password]
    login_user_indistinguishable
      [where e = "StrV ''ann@example.org''" and p = "StrV ''hash-a''"
         and w = "example_world []" and check_password = example_check_password]
  by (simp add: example_defs round_trip_def)

text \<open>
  C7 (release of the session). The claim is that every entity operation closes its
  session on every exit path. \<open>login_user\<close> and \<open>get_all_users\<close> never call
  \<open>session.close()\<close>: on every input and every path each leaves one more session
  open than it found.
\<close>

theorem login_user_leaves_session_open:
  "open_sessions (snd (login_user check_password e p w)) = open_sessions w + 1
   \<and> open_sessions (snd (get_all_users to_dict w)) = open_sessions w + 1"
  by (simp add: login_user_eq get_all_users_def SessionLocal_def query_all_eq Let_def
        round_trip_frame)

subsection \<open>delete_job\<close>

lemma delete_job_absent:
  assumes "find (\<lambda>r. job_pk r = jid) (jobs (db w)) = None"
  shows "fst (delete_job jid w) = Inr False \<and> db (snd (delete_job jid w)) = db w"
  using assms by (simp add: delete_job_eq Let_def close_def round_trip_frame)

lemma three_round_trips:
  "True \<in> set (take 3 (faults w)) \<longleftrightarrow>
      fst (round_trip w) \<or> fst (round_trip (snd (round_trip w)))
      \<or> fst (round_trip (snd (round_trip (snd (round_trip w)))))"
  by (simp add: round_trip_faults take_faults_Suc numeral_3_eq_3)

lemma delete_job_present:
  assumes "find (\<lambda>r. job_pk r = jid) (jobs (db w)) = Some j"
    and "distinct (map application_pk (applications (db w)))"
  shows "if True \<in> set (take 3 (faults w))
       then fst (delete_job jid w) = Inr False \<and> db (snd (delete_job jid w)) = db w
       else fst (delete_job jid w) = Inr True
          \<and> db (snd (delete_job jid w)) =
              (db w)\<lparr>jobs := filter (\<lambda>r. job_pk r \<noteq> jid) (jobs (db w)),
                     applications := filter (\<lambda>a. job_id a \<noteq> IntV jid) (applications (db w))\<rparr>
          \<and> filter (\<lambda>a. job_id a = IntV jid) (applications (db (snd (delete_job jid w)))) = []"
proof -
  from assms(1) have pk: "job_pk j = jid" by (auto dest: find_pk_Some)
  from assms(2) have rel: "filter (\<lambda>r. application_pk r \<notin> application_pk `
        set (filter (\<lambda>a. job_id a = IntV jid) (applications (db w)))) (applications (db w))
      = filter (\<lambda>a. job_id a \<noteq> IntV jid) (applications (db w))"
    by (rule filter_related_distinct)
  define w1 where "w1 = w\<lparr>open_sessions := open_sessions w + 1\<rparr>"
  have fw: "faults w1 = faults w" by (simp add: w1_def)
  have fl: "True \<in> set (take 3 (faults w)) \<longleftrightarrow>
      fst (round_trip w1) \<or> fst (round_trip (snd (round_trip w1)))
      \<or> fst (round_trip (snd (round_trip (snd (round_trip w1)))))"
    using three_round_trips[of w1] unfolding fw .
  have eq: "delete_job jid w =
     (if fst (round_trip w1) then (Inr False, close \<lparr>txn = db w\<rparr> (snd (round_trip w1)))
      else if fst (round_trip (snd (round_trip w1)))
        then (Inr False, close \<lparr>txn = db w\<rparr> (snd (round_trip (snd (round_trip w1)))))
      else if fst (round_trip (snd (round_trip (snd (round_trip w1)))))
        then (Inr False, close \<lparr>txn = db w\<rparr>
                (snd (round_trip (snd (round_trip (snd (round_trip w1)))))))
      else (Inr True, close \<lparr>txn = db w\<rparr>
              ((snd (round_trip (snd (round_trip (snd (round_trip w1))))))
                 \<lparr>db := (db w)\<lparr>jobs := filter (\<lambda>r. job_pk r \<noteq> jid) (jobs (db w)),
                     applications := filter (\<lambda>a. job_id a \<noteq> IntV jid) (applications (db w))\<rparr>\<rparr>)))"
    unfolding delete_job_eq Let_def w1_def[symmetric] assms(1) rel by (simp add: pk)
  have d1: "db w1 = db w" by (simp add: w1_def)
  show ?thesis
    unfolding fl eq by (simp add: close_def round_trip_frame d1)
qed

text \<open>
  C4 (cascade delete of a job). For every \<open>job_id\<close>: when no job has that id,
  \<open>delete_job\<close> returns \<open>False\<close> and the database is unchanged. Otherwise, in a table
  whose primary keys are distinct, the applications of the job and the job are deleted
  as one unit: if one of the three round trips (the two queries and the commit) raises,
  \<open>False\<close> is returned and nothing is deleted; if none does, \<open>True\<close> is returned, exactly
  the job and the applications with that \<open>job_id\<close> are gone, and a query for
  applications by that \<open>job_id\<close> is empty.
\<close>

theorem delete_job_cascade:
  "(find (\<lambda>r. job_pk r = jid) (jobs (db w)) = None \<longrightarrow>
      fst (delete_job jid w) = Inr False \<and> db (snd (delete_job jid w)) = db w)
   \<and> (find (\<lambda>r. job_pk r = jid) (jobs (db w)) = Some j \<and>
        distinct (map application_pk (applications (db w))) \<longrightarrow>
      (if True \<in> set (take 3 (faults w))
       then fst (delete_job jid w) = Inr False \<and> db (snd (delete_job jid w)) = db w
       else fst (delete_job jid w) = Inr True
          \<and> db (snd (delete_job jid w)) =
              (db w)\<lparr>jobs := filter (\<lambda>r. job_pk r \<noteq> jid) (jobs (db w)),
                     applications := filter (\<lambda>a. job_id a \<noteq> IntV jid) (applications (db w))\<rparr>
          \<and> filter (\<lambda>a. job_id a = IntV jid) (applications (db (snd (delete_job jid w)))) = []))"
  using delete_job_absent[of jid w] delete_job_present[of jid w j] by blast

theorem delete_job_cascade_witness:
  "fst (delete_job 9 (example_world [])) = Inr False
   \<and> db (snd (delete_job 9 (example_world []))) = example_db
   \<and> fst (delete_job 1 (example_world [False, False, True])) = Inr False
   \<and> db (snd (delete_job 1 (example_world [False, False, True]))) = example_db
   \<and> fst (delete_job 1 (example_world [])) = Inr True
   \<and> db (snd (delete_job 1 (example_world [])))
       = \<lparr>users = [ann, acme], jobs = [job2], applications = [app2]\<rparr>"
  using
    delete_job_cascade [where jid = 9 and w = "example_world []"]
    delete_job_cascade [where jid = 1 and w = "example_world [False, False, True]" and j = job1]
    delete_job_cascade [where jid = 1 and w = "example_world []" and j = job1]
  by (simp add: example_defs)

text \<open>The session of \<open>delete_job\<close> is closed on every path.\<close>

lemma delete_job_closes_session:
  "open_sessions (snd (delete_job jid w)) = open_sessions w"
  by (simp add: delete_job_eq Let_def close_def round_trip_frame split: option.splits)

subsection \<open>create_application\<close>

lemma new_application_pair:
  assumes "new_application data = Inr a"
  shows "data ''user_id'' = Some (user_id a) \<and> data ''job_id'' = Some (job_id a)"
proof -
  from assms obtain vj where j: "subscript data ''job_id'' = Inr vj"
    by (cases "subscript data ''job_id''") (auto simp: new_application_def and_then_def)
  from assms j obtain ve where e: "subscript data ''employer_id'' = Inr ve"
    by (cases "subscript data ''employer_id''") (auto simp: new_application_def and_then_def)
  from assms j e obtain vu where u: "subscript data ''user_id'' = Inr vu"
    by (cases "subscript data ''user_id''") (auto simp: new_application_def and_then_def)
  have pj: "job_id a = vj" and pu: "user_id a = vu"
    using assms j e u
    by (auto simp: new_application_def and_then_def split: sum.splits)
  from j u show ?thesis
    unfolding pj pu by (auto simp: subscript_def split: option.splits)
qed

lemma distinct_pairs_filter:
  assumes "distinct (map f xs)"
  shows "(\<exists>x\<in>set xs. f x = k) \<longleftrightarrow> length (filter (\<lambda>x. f x = k) xs) = 1"
  using assms
proof (induction xs)
  case Nil
  show ?case by simp
next
  case (Cons x xs)
  then have d: "distinct (map f xs)" and nx: "f x \<notin> f ` set xs" by auto
  show ?case
  proof (cases "f x = k")
    case True
    from nx True have "\<forall>y\<in>set xs. f y \<noteq> k" by (metis imageI)
    then have "filter (\<lambda>y. f y = k) xs = []" by (simp add: filter_empty_conv)
    with True show ?thesis by simp
  next
    case False
    with Cons.IH[OF d] show ?thesis by simp
  qed
qed

text \<open>
  \<open>create_application\<close> keeps the invariant on every path, so every store that the
  operation has built from a store with the invariant has it.
\<close>

lemma create_application_keeps_invariant:
  assumes "one_application_per_pair (db w)"
  shows "one_application_per_pair (db (snd (create_application data w)))"
proof (cases "fst (create_application data w)")
  case (Inl e)
  have "db (snd (create_application data w)) = db w"
    using Inl
    by (auto simp: create_application_def SessionLocal_def query_first_def query_all_eq
          commit_eq round_trip_frame add_application_def Let_def
          split: sum.splits option.splits list.splits prod.splits if_splits)
  with assms show ?thesis by simp
next
  case (Inr a)
  then obtain u j where uj: "data ''user_id'' = Some u" "data ''job_id'' = Some j"
    by (auto simp: create_application_def SessionLocal_def subscript_def
          split: option.splits)
  from Inr uj have none: "filter (\<lambda>a. user_id a = u \<and> job_id a = j) (applications (db w)) = []"
    by (auto simp: create_application_def SessionLocal_def subscript_def query_first_def
          query_all_eq split: list.splits if_splits)
  from Inr uj none obtain a0 where a0: "new_application data = Inr a0"
    by (cases "new_application data")
       (auto simp: create_application_def SessionLocal_def subscript_def query_first_def
          query_all_eq split: if_splits)
  from new_application_pair[OF a0] uj have p: "user_id a0 = u" "job_id a0 = j" by auto
  from Inr uj none a0 have dbs: "db (snd (create_application data w)) =
      (db w)\<lparr>applications := applications (db w) @
          [a0\<lparr>application_pk := fresh_application_pk (db w)\<rparr>]\<rparr>"
    by (auto simp: create_application_def SessionLocal_def subscript_def query_first_def
          query_all_eq commit_eq add_application_def Let_def split: if_splits)
  from none have "(u, j) \<notin> (\<lambda>a. (user_id a, job_id a)) ` set (applications (db w))"
    by (auto simp: filter_empty_conv)
  with assms show ?thesis
    unfolding dbs by (simp add: one_application_per_pair_def p)
qed

lemma create_application_existing:
  assumes "data ''user_id'' = Some u" "data ''job_id'' = Some j"
    and "\<exists>a \<in> set (applications (db w)). user_id a = u \<and> job_id a = j"
    and "True \<notin> set (take 1 (faults w))"
  shows "fst (create_application data w) = Inl (ValueError ''You have already applied for this job'')"
    and "db (snd (create_application data w)) = db w"
proof -
  from assms(3) have ne: "filter (\<lambda>a. user_id a = u \<and> job_id a = j) (applications (db w)) \<noteq> []"
    by (auto simp: filter_empty_conv)
  then obtain r rs where f: "filter (\<lambda>a. user_id a = u \<and> job_id a = j) (applications (db w)) = r # rs"
    by (cases "filter (\<lambda>a. user_id a = u \<and> job_id a = j) (applications (db w))") auto
  from assms(4) have nf: "\<not> fst (round_trip (w\<lparr>open_sessions := open_sessions w + 1\<rparr>))"
    by (simp add: round_trip_faults take_faults_1)
  show "fst (create_application data w) = Inl (ValueError ''You have already applied for this job'')"
    using assms(1,2) f nf
    by (simp add: create_application_def SessionLocal_def subscript_def query_first_def query_all_eq)
  show "db (snd (create_application data w)) = db w"
    using assms(1,2) f nf
    by (simp add: create_application_def SessionLocal_def subscript_def query_first_def query_all_eq
          round_trip_frame)
qed

text \<open>
  C5 (no duplicate application). For every store with the invariant of the data model
  that already holds an application for a pair \<open>(user_id, job_id)\<close>,
  \<open>create_application\<close> with data carrying that pair raises the \<open>ValueError\<close> of a
  duplicate (an exception, not a sentinel value), inserts nothing and leaves exactly one
  application for that pair. The query of the check has to be answered by the database.
\<close>

theorem create_application_duplicate:
  assumes "data ''user_id'' = Some u" "data ''job_id'' = Some j"
    and "one_application_per_pair (db w)"
    and "\<exists>a \<in> set (applications (db w)). user_id a = u \<and> job_id a = j"
    and "True \<notin> set (take 1 (faults w))"
  shows "fst (create_application data w) = Inl (ValueError ''You have already applied for this job'')
       \<and> db (snd (create_application data w)) = db w
       \<and> length (filter (\<lambda>a. user_id a = u \<and> job_id a = j)
                   (applications (db (snd (create_application data w))))) = 1"
proof -
  from assms(4) have "\<exists>a \<in> set (applications (db w)). (user_id a, job_id a) = (u, j)"
    by simp
  with assms(3) have "length (filter (\<lambda>a. (user_id a, job_id a) = (u, j)) (applications (db w))) = 1"
    unfolding one_application_per_pair_def by (simp only: distinct_pairs_filter)
  then have one: "length (filter (\<lambda>a. user_id a = u \<and> job_id a = j) (applications (db w))) = 1"
    by simp
  show ?thesis
    using create_application_existing[OF assms(1,2,4,5)] one by simp
qed

theorem create_application_duplicate_witness:
  "one_application_per_pair (db (example_world []))
   \<and> (\<exists>a \<in> set (applications (db (example_world []))). user_id a = IntV 1 \<and> job_id a = IntV 1)
   \<and> fst (create_application [''user_id'' \<mapsto> IntV 1, ''job_id'' \<mapsto> IntV 1] (example_world []))
       = Inl (ValueError ''You have already applied for this job'')
   \<and> db (snd (create_application [''user_id'' \<mapsto> IntV 1, ''job_id'' \<mapsto> IntV 1]
                 (example_world []))) = example_db
   \<and> length (filter (\<lambda>a. user_id a = IntV 1 \<and> job_id a = IntV 1)
        (applications (db (snd (create_application [''user_id'' \<mapsto> IntV 1, ''job_id'' \<mapsto> IntV 1]
                 (example_world [])))))) = 1"
  using create_application_duplicate
    [where data = "[''user_id'' \<mapsto> IntV 1, ''job_id'' \<mapsto> IntV 1]" and u = "IntV 1"
       and j = "IntV 1" and w = "example_world []"]
  by (simp add: example_defs one_application_per_pair_def)

subsection \<open>update_application_status\<close>

text \<open>
  C6 (update of a missing id). For every \<open>application_id\<close> without an application in the
  store and every \<open>data\<close>, \<open>update_application_status\<close> returns \<open>None\<close> and the database is
  the same after the call as before, whether the database answers or raises; the session
  is closed.
\<close>

theorem update_application_status_missing:
  assumes "find (\<lambda>a. application_pk a = i) (applications (db w)) = None"
  shows "fst (update_application_status to_dict i data w) = Inr None
       \<and> db (snd (update_application_status to_dict i data w)) = db w
       \<and> open_sessions (snd (update_application_status to_dict i data w)) = open_sessions w"
  using assms
  by (simp add: update_application_status_def SessionLocal_def query_get_eq
        close_def rollback_def round_trip_frame)

theorem update_application_status_missing_witness:
  "find (\<lambda>a. application_pk a = 9) (applications (db (example_world [False, True]))) = None
   \<and> fst (update_application_status example_to_dict 9 [''status'' \<mapsto> StrV ''accepted'']
            (example_world [False, True])) = Inr None
   \<and> db (snd (update_application_status example_to_dict 9 [''status'' \<mapsto> StrV ''accepted'']
            (example_world [False, True]))) = example_db"
  using update_application_status_missing
    [where i = 9 and w = "example_world [False, True]" and to_dict = example_to_dict
       and data = "[''status'' \<mapsto> StrV ''accepted'']"]
  by (simp add: example_defs)

text \<open>
  C9 (frame property of the update). For every existing \<open>application_id\<close> and every
  \<open>data\<close> without the key \<open>status\<close>, \<open>update_application_status\<close> commits and returns the
  serialized row with every column, \<open>status\<close> included, as it was before the call, and the
  database is unchanged. The three round trips (the query, the commit and the reload of
  the row for \<open>to_dict\<close>) have to be answered by the database.
\<close>

theorem update_application_status_without_status:
  assumes "find (\<lambda>r. application_pk r = i) (applications (db w)) = Some a"
    and "data ''status'' = None"
    and "True \<notin> set (take 3 (faults w))"
  shows "fst (update_application_status to_dict i data w) = Inr (Some (to_dict a))
       \<and> db (snd (update_application_status to_dict i data w)) = db w
       \<and> find (\<lambda>r. application_pk r = i)
            (applications (db (snd (update_application_status to_dict i data w)))) = Some a"
proof -
  define w1 where "w1 = w\<lparr>open_sessions := open_sessions w + 1\<rparr>"
  have fw: "faults w1 = faults w" by (simp add: w1_def)
  from assms(3) have nf: "\<not> fst (round_trip w1)" "\<not> fst (round_trip (snd (round_trip w1)))"
      "\<not> fst (round_trip (snd (round_trip (snd (round_trip w1)))))"
    using three_round_trips[of w1] unfolding fw by simp_all
  from assms(1) have pk: "application_pk a = i" by (rule find_pk_Some)
  have d1: "db w1 = db w" by (simp add: w1_def)
  have eq: "update_application_status to_dict i data w =
      (Inr (Some (to_dict a)),
       close \<lparr>txn = db w\<rparr>
         (snd (round_trip ((snd (round_trip (snd (round_trip w1))))\<lparr>db := db w\<rparr>))))"
    using assms(1,2) nf
    unfolding update_application_status_def SessionLocal_def w1_def[symmetric]
    by (simp add: query_get_eq commit_eq refresh_eq round_trip_frame round_trip_db_update pk d1)
  show ?thesis
    unfolding eq using assms(1) by (simp add: close_def round_trip_frame)
qed

theorem update_application_status_without_status_witness:
  "find (\<lambda>r. application_pk r = 2) (applications (db (example_world []))) = Some app2
   \<and> fst (update_application_status example_to_dict 2 [''note'' \<mapsto> StrV ''seen'']
            (example_world [])) = Inr (Some (2, StrV ''pending''))
   \<and> db (snd (update_application_status example_to_dict 2 [''note'' \<mapsto> StrV ''seen'']
            (example_world []))) = example_db"
  using update_application_status_without_status
    [where i = 2 and w = "example_world []" and to_dict = example_to_dict and a = app2
       and data = "[''note'' \<mapsto> StrV ''seen'']"]
  by (simp add: example_defs)

text \<open>When the reload for \<open>to_dict\<close> raises, the call returns \<open>None\<close> after the commit.\<close>

lemma update_application_status_reload_fails:
  "fst (update_application_status example_to_dict 2 [''note'' \<mapsto> StrV ''seen'']
          (example_world [False, False, True])) = Inr None"
  by (simp add: update_application_status_def SessionLocal_def query_get_eq commit_eq
        refresh_eq round_trip_def rollback_def close_def example_defs)

end
